theory Spec2Isabelle
  imports Complex_Main "HOL-Library.Word" "HOL-Library.Sublist"
begin

section \<open>Constants of \<^verbatim>\<open>app/main.go\<close>\<close>

definition serviceName :: string where
  "serviceName = ''demo-app''"

definition jobName :: string where
  "jobName = ''demo-app''"

definition routeFast :: string where
  "routeFast = ''/hello''"

definition routeSlow :: string where
  "routeSlow = ''/slow''"

definition routeAlloc :: string where
  "routeAlloc = ''/alloc''"

text \<open>
  The source text of the compiled pattern \<^verbatim>\<open>emailRegexp\<close>; the backslash is
  written as the byte \<open>0x5C\<close>.
\<close>

definition emailRegexp :: string where
  "emailRegexp =
     ''^('' @ [CHR 0x5C] @ ''w+([-.][A-Za-z0-9]+)*){3,18}@'' @ [CHR 0x5C] @
     ''w+([-.][A-Za-z0-9]+)*'' @ [CHR 0x5C] @ ''.'' @ [CHR 0x5C] @
     ''w+([-.][A-Za-z0-9]+)*$''"

text \<open>
  \<^verbatim>\<open>slowEmailSample\<close>, as the bytes of its UTF-8 encoding: the inverted question
  mark is the two bytes \<open>0xC2 0xBF\<close>.
\<close>

definition slowEmailSample :: string where
  "slowEmailSample =
     ''rosamariachoccelahuaaranda70@gmail.comnnbbb.bbNG.bbb.n'' @ [CHR 0xC2, CHR 0xBF] @ ''.?n''"

definition StatusInternalServerError :: nat where
  "StatusInternalServerError = 500"

definition StatusOK :: nat where
  "StatusOK = 200"

section \<open>Data model\<close>

type_synonym byte = "8 word"

type_synonym attrs = "(string \<times> string) list"

text \<open>Values of log attributes: \<^verbatim>\<open>otel_log.String\<close> and \<^verbatim>\<open>otel_log.Int\<close>.\<close>

datatype log_value = StringValue string | IntValue int

datatype severity = SeverityUndefined | SeverityInfo | SeverityError

text \<open>
  \<^verbatim>\<open>otel_log.Record\<close>, with the fields the program sets. \<^verbatim>\<open>otel_log.Record{}\<close> is
  \<open>empty_record\<close>.
\<close>

record log_record =
  timestamp :: int
  severity :: severity
  severityText :: string
  body :: string
  attributes :: "(string \<times> log_value) list"

definition empty_record :: log_record where
  "empty_record =
     \<lparr>timestamp = 0, severity = SeverityUndefined, severityText = [], body = [],
      attributes = []\<rparr>"

text \<open>
  Every call the program makes into a package outside the repository, in program order.
  Durations are \<^verbatim>\<open>time.Duration\<close> values, a number of nanoseconds. The arithmetic of
  \<^verbatim>\<open>float64\<close> is not modelled: the observation \<^verbatim>\<open>d.Seconds()\<close> that the histogram
  records is represented by the duration \<open>d\<close> it is computed from.
\<close>

datatype event =
    StdLog string
  | TracerStart string
  | SpanSetAttributes string attrs
  | SpanRecordError string string
  | SpanEnd string
  | MatchString string string
  | ClientGet string
  | BodyClose
  | CounterAdd string int attrs
  | HistogramRecord string int attrs
  | LoggerEmit log_record
  | Sleep int
  | WriteHeader nat
  | Write string

text \<open>
  The state of the process: the global slice \<^verbatim>\<open>allocHolder\<close> holds the addresses of
  its blocks, \<open>heap\<close> is the store of byte arrays that \<^verbatim>\<open>make\<close> has allocated (the
  address of an array is its index; an array is never moved, and collection of unreachable
  arrays is not modelled), and \<open>calls\<close> is the sequence of external calls made so far.
\<close>

record world =
  allocHolder :: "nat list"
  heap :: "byte list list"
  calls :: "event list"

definition init_world :: "world" where
  "init_world = \<lparr>allocHolder = [], heap = [], calls = []\<rparr>"

definition emit :: "event \<Rightarrow> world \<Rightarrow> world" where
  "emit e s = s\<lparr>calls := calls s @ [e]\<rparr>"

text \<open>
  \<^verbatim>\<open>http.ResponseWriter\<close>: the first \<^verbatim>\<open>WriteHeader\<close> fixes the status, a later one is
  ignored; \<^verbatim>\<open>Write\<close> sends status 200 first when no header has been written.
\<close>

record response_writer =
  wroteHeader :: bool
  status :: nat
  written :: string

definition new_response :: response_writer where
  "new_response = \<lparr>wroteHeader = False, status = 0, written = []\<rparr>"

record request =
  req_method :: string
  req_path :: string
  req_query :: string

definition rw_WriteHeader ::
  "nat \<Rightarrow> response_writer \<times> world \<Rightarrow> response_writer \<times> world" where
  "rw_WriteHeader code ws =
     (let w = fst ws; s = emit (WriteHeader code) (snd ws)
      in if wroteHeader w then (w, s) else (w\<lparr>wroteHeader := True, status := code\<rparr>, s))"

definition rw_Write ::
  "string \<Rightarrow> response_writer \<times> world \<Rightarrow> response_writer \<times> world" where
  "rw_Write b ws =
     (let w = fst ws; s = emit (Write b) (snd ws);
          w1 = (if wroteHeader w then w else w\<lparr>wroteHeader := True, status := StatusOK\<rparr>)
      in (w1\<lparr>written := written w1 @ b\<rparr>, s))"

section \<open>The memory-retention path\<close>

definition chunkSize :: nat where
  "chunkSize = 256 * 1024"

definition chunkCount :: nat where
  "chunkCount = 200"

definition maxRetained :: nat where
  "maxRetained = 20"

text \<open>\<^verbatim>\<open>for i := range batch { batch[i] = byte(i) }\<close>\<close>

function fill_batch :: "nat \<Rightarrow> byte list \<Rightarrow> byte list" where
  "fill_batch i batch =
     (if i < length batch then fill_batch (Suc i) (batch[i := word_of_nat i]) else batch)"
  by pat_completeness auto
termination
  by (relation "measure (\<lambda>(i, batch). length batch - i)") auto

text \<open>
  \<^verbatim>\<open>allocateMemoryBurst\<close>: drop the oldest block when \<^verbatim>\<open>maxRetained\<close> are held,
  allocate and fill a new array, append it.
\<close>

definition allocateMemoryBurst :: "world \<Rightarrow> world" where
  "allocateMemoryBurst s =
     (let holder = (if length (allocHolder s) \<ge> maxRetained then drop 1 (allocHolder s)
                    else allocHolder s);
          addr = length (heap s);
          batch = fill_batch 0 (replicate (chunkSize * chunkCount) 0)
      in s\<lparr>allocHolder := holder @ [addr], heap := heap s @ [batch]\<rparr>)"

definition allocHandler ::
  "request \<Rightarrow> response_writer \<times> world \<Rightarrow> response_writer \<times> world" where
  "allocHandler r ws =
     (let ws1 = (fst ws, emit (TracerStart ''alloc_business_logic'') (snd ws));
          ws2 = (fst ws1, allocateMemoryBurst (snd ws1));
          ws3 = rw_Write ''Alloc endpoint finished'' ws2
      in (fst ws3, emit (SpanEnd ''alloc_business_logic'') (snd ws3)))"

text \<open>
  \<open>n\<close> successive requests to \<^verbatim>\<open>/alloc\<close>, the \<open>k\<close>-th being \<open>reqs k\<close>, each with a
  response writer of its own.
\<close>

fun alloc_calls :: "nat \<Rightarrow> (nat \<Rightarrow> request) \<Rightarrow> world \<Rightarrow> world" where
  "alloc_calls 0 reqs s = s"
| "alloc_calls (Suc n) reqs s = snd (allocHandler (reqs n) (new_response, alloc_calls n reqs s))"

section \<open>The CPU-bound path\<close>

text \<open>
  The package \<^verbatim>\<open>regexp\<close> is not part of the repository: \<open>matchString p t\<close> stands for
  the result of \<^verbatim>\<open>MatchString\<close> on the text \<open>t\<close> for the pattern compiled from \<open>p\<close>.
\<close>

type_synonym matcher = "string \<Rightarrow> string \<Rightarrow> bool"

text \<open>The loop of \<^verbatim>\<open>checkEmail\<close>, from the counter \<open>i\<close> and the variable \<^verbatim>\<open>matched\<close>.\<close>

function checkEmail_loop :: "matcher \<Rightarrow> nat \<Rightarrow> bool \<times> world \<Rightarrow> bool \<times> world" where
  "checkEmail_loop matchString i ms =
     (if i < 5000 then
        (let s1 = emit (MatchString emailRegexp slowEmailSample) (snd ms);
             matched = (if matchString emailRegexp slowEmailSample then True else fst ms)
         in checkEmail_loop matchString (Suc i) (matched, s1))
      else ms)"
  by pat_completeness auto
termination
  by (relation "measure (\<lambda>(matchString, i, ms). 5000 - i)") auto

definition checkEmail :: "matcher \<Rightarrow> world \<Rightarrow> bool \<times> world" where
  "checkEmail matchString s = checkEmail_loop matchString 0 (False, s)"

text \<open>The loop of \<^verbatim>\<open>slowHandler\<close>; the result of \<^verbatim>\<open>checkEmail\<close> is discarded.\<close>

function slowHandler_loop :: "matcher \<Rightarrow> nat \<Rightarrow> world \<Rightarrow> world" where
  "slowHandler_loop matchString i s =
     (if i < 50 then slowHandler_loop matchString (Suc i) (snd (checkEmail matchString s))
      else s)"
  by pat_completeness auto
termination
  by (relation "measure (\<lambda>(matchString, i, s). 50 - i)") auto

text \<open>
  \<^verbatim>\<open>slowHandler\<close>. The deferred \<^verbatim>\<open>span.End()\<close> runs when the function returns, that is
  after the call of \<^verbatim>\<open>w.Write\<close>.
\<close>

definition slowHandler ::
  "matcher \<Rightarrow> request \<Rightarrow> response_writer \<times> world \<Rightarrow> response_writer \<times> world" where
  "slowHandler matchString r ws =
     (let ws1 = (fst ws, emit (TracerStart ''slow_business_logic'') (snd ws));
          ws2 = (fst ws1, slowHandler_loop matchString 0 (snd ws1));
          ws3 = rw_Write ''Slow endpoint finished'' ws2
      in (fst ws3, emit (SpanEnd ''slow_business_logic'') (snd ws3)))"

section \<open>The baseline path\<close>

definition Millisecond :: int where
  "Millisecond = 1000000"

text \<open>
  The constant \<^verbatim>\<open>0.05\<close> of the comparison \<^verbatim>\<open>rand.Float32() < 0.05\<close> is converted to
  \<^verbatim>\<open>float32\<close>: it is the nearest value of that type, \<open>13421773 / 2 ^ 28\<close>. A \<^verbatim>\<open>float32\<close> is
  represented by the real number it denotes, on which the comparison is exact.
\<close>

definition float32_0_05 :: real where
  "float32_0_05 = 13421773 / 268435456"

text \<open>
  The package \<^verbatim>\<open>math/rand\<close> is not part of the repository. \<^verbatim>\<open>rand.Intn(n)\<close> returns a
  value of the half-open interval from 0 to \<open>n\<close>, for \<open>n > 0\<close> (the program calls it with
  positive constants only): with \<open>v\<close> the value drawn from the source of randomness, the
  result is \<open>v\<close> reduced modulo \<open>n\<close>, which takes every value of that interval.
\<close>

definition rand_Intn :: "nat \<Rightarrow> nat \<Rightarrow> nat" where
  "rand_Intn n v = v mod n"

text \<open>
  \<^verbatim>\<open>helloHandler\<close>; \<open>v\<close> is the value drawn for \<^verbatim>\<open>rand.Intn(50)\<close> and \<open>f\<close> the value
  returned by \<^verbatim>\<open>rand.Float32()\<close>.
\<close>

definition helloHandler ::
  "nat \<Rightarrow> real \<Rightarrow> request \<Rightarrow> response_writer \<times> world \<Rightarrow> response_writer \<times> world" where
  "helloHandler v f r ws =
     (let ws1 = (fst ws, emit (Sleep (Millisecond * int (rand_Intn 50 v))) (snd ws))
      in if f < float32_0_05 then rw_WriteHeader StatusInternalServerError ws1
         else rw_Write ''Hello World'' ws1)"

section \<open>Formatting\<close>

definition digit_char :: "nat \<Rightarrow> char" where
  "digit_char d = char_of (48 + d)"

function decimal :: "nat \<Rightarrow> string" where
  "decimal n = (if n < 10 then [digit_char n] else decimal (n div 10) @ [digit_char (n mod 10)])"
  by pat_completeness auto
termination
  by (relation "measure (\<lambda>n. n)") auto

text \<open>The verb \<^verbatim>\<open>%d\<close> on an \<^verbatim>\<open>int\<close>.\<close>

definition fmt_d :: "int \<Rightarrow> string" where
  "fmt_d i = (if i < 0 then CHR ''-'' # decimal (nat (- i)) else decimal (nat i))"

text \<open>
  The operands of \<^verbatim>\<open>fmt.Sprintf\<close> in the program: strings, an \<^verbatim>\<open>int\<close>, and an
  \<^verbatim>\<open>error\<close>, given by the text of its \<^verbatim>\<open>Error()\<close> method. The program uses the verbs
  \<^verbatim>\<open>%s\<close>, \<^verbatim>\<open>%d\<close> and \<^verbatim>\<open>%v\<close> only, each on an operand of the type it expects; a
  verb with no operand left prints \<^verbatim>\<open>%!v(MISSING)\<close> for the verb \<open>v\<close>.
\<close>

datatype fmt_arg = ArgString string | ArgInt int | ArgError string

fun format_arg :: "fmt_arg \<Rightarrow> string" where
  "format_arg (ArgString x) = x"
| "format_arg (ArgInt i) = fmt_d i"
| "format_arg (ArgError e) = e"

fun Sprintf :: "string \<Rightarrow> fmt_arg list \<Rightarrow> string" where
  "Sprintf [] args = []"
| "Sprintf [c] args = (if c = CHR ''%'' then ''%!(NOVERB)'' else [c])"
| "Sprintf (c # v # rest) args =
     (if c = CHR ''%'' then
        (if v = CHR ''%'' then CHR ''%'' # Sprintf rest args
         else (case args of
                 [] \<Rightarrow> ''%!'' @ [v] @ ''(MISSING)'' @ Sprintf rest []
               | a # as \<Rightarrow> format_arg a @ Sprintf rest as))
      else c # Sprintf (v # rest) args)"

section \<open>The traffic generator\<close>

text \<open>
  What one iteration of the loop receives from outside: the result of \<^verbatim>\<open>client.Get\<close>
  (\<open>Some\<close> of the error's text when it fails), the measured \<^verbatim>\<open>time.Since(start)\<close>, the
  identifiers of the span as \<^verbatim>\<open>String()\<close> renders them, the time of the log record and the
  value returned by \<^verbatim>\<open>rand.Intn(500)\<close>.
\<close>

record iter_env =
  get_err :: "string option"
  elapsed :: int
  trace_id :: string
  span_id :: string
  log_time :: int
  intn_500 :: nat

text \<open>
  One iteration of the loop of \<^verbatim>\<open>startTrafficGenerator\<close>; \<open>to_ms d\<close> stands for the
  value of \<^verbatim>\<open>int(duration*1000)\<close> when \<^verbatim>\<open>duration\<close> is \<^verbatim>\<open>d.Seconds()\<close>.
\<close>

definition generator_iteration ::
  "matcher \<Rightarrow> (int \<Rightarrow> int) \<Rightarrow> iter_env \<Rightarrow> world \<Rightarrow> world" where
  "generator_iteration matchString to_ms env s =
     (let s1 = emit (TracerStart ''traffic_generator_request'') s;
          s2 = emit (SpanSetAttributes ''traffic_generator_request''
                      [(''job'', jobName), (''service_name'', serviceName)]) s1;
          s3 = snd (checkEmail matchString s2);
          s4 = emit (ClientGet (''http://localhost:8080'' @ routeSlow)) s3;
          traceID = trace_id env;
          spanID = span_id env;
          s5 = (case get_err env of
                  Some err \<Rightarrow>
                    (let r = empty_record
                           \<lparr>timestamp := log_time env,
                            severity := SeverityError,
                            severityText := ''ERROR'',
                            body := Sprintf
                              ''[ERROR] route=%s method=GET err=%v trace_id=%s span_id=%s''
                              [ArgString routeSlow, ArgError err, ArgString traceID,
                               ArgString spanID],
                            attributes :=
                              [(''route'', StringValue routeSlow),
                               (''error'', StringValue err),
                               (''trace_id'', StringValue traceID),
                               (''span_id'', StringValue spanID)]\<rparr>;
                         sa = emit (LoggerEmit r) s4
                     in emit (SpanRecordError ''traffic_generator_request'' err) sa)
                | None \<Rightarrow>
                    (let sa = emit (CounterAdd ''demo_request_total'' 1
                                [(''method'', ''GET''), (''status'', ''200''),
                                 (''route'', routeSlow)]) s4;
                         sb = emit (HistogramRecord ''demo_request_duration_seconds''
                                (elapsed env) [(''route'', routeSlow)]) sa;
                         sc = emit BodyClose sb;
                         r = empty_record
                           \<lparr>timestamp := log_time env,
                            severity := SeverityInfo,
                            severityText := ''INFO'',
                            body := Sprintf
                              ''[OK] route=%s method=GET status=200 duration_ms=%d trace_id=%s span_id=%s''
                              [ArgString routeSlow, ArgInt (to_ms (elapsed env)),
                               ArgString traceID, ArgString spanID],
                            attributes :=
                              [(''route'', StringValue routeSlow),
                               (''duration_ms'', IntValue (to_ms (elapsed env))),
                               (''method'', StringValue ''GET''),
                               (''trace_id'', StringValue traceID),
                               (''span_id'', StringValue spanID)]\<rparr>
                     in emit (LoggerEmit r) sc));
          s6 = emit (SpanEnd ''traffic_generator_request'') s5
      in emit (Sleep (Millisecond * (100 + int (intn_500 env)))) s6)"

text \<open>
  The loop \<^verbatim>\<open>for { ... }\<close> has no exit. \<open>generator_loop n\<close> is the state when \<open>n\<close>
  iterations have been executed, the \<open>k\<close>-th of them receiving \<open>envs k\<close>.
\<close>

fun generator_loop ::
  "matcher \<Rightarrow> (int \<Rightarrow> int) \<Rightarrow> nat \<Rightarrow> (nat \<Rightarrow> iter_env) \<Rightarrow> world \<Rightarrow> world" where
  "generator_loop matchString to_ms 0 envs s = s"
| "generator_loop matchString to_ms (Suc n) envs s =
     generator_iteration matchString to_ms (envs n) (generator_loop matchString to_ms n envs s)"

definition startTrafficGenerator ::
  "matcher \<Rightarrow> (int \<Rightarrow> int) \<Rightarrow> nat \<Rightarrow> (nat \<Rightarrow> iter_env) \<Rightarrow> world \<Rightarrow> world" where
  "startTrafficGenerator matchString to_ms n envs s =
     generator_loop matchString to_ms n envs (emit (StdLog ''Starting traffic generator...'') s)"

text \<open>
  The loop as it is written, started at iteration \<open>k\<close>: it returns \<open>Some ()\<close> if it ever
  returns, and \<open>None\<close> if it runs forever.
\<close>

partial_function (option) generator_forever ::
  "matcher \<Rightarrow> (int \<Rightarrow> int) \<Rightarrow> (nat \<Rightarrow> iter_env) \<Rightarrow> nat \<Rightarrow> world \<Rightarrow> unit option" where
  "generator_forever matchString to_ms envs k s =
     generator_forever matchString to_ms envs (Suc k)
       (generator_iteration matchString to_ms (envs k) s)"

section \<open>Observations on the sequence of calls\<close>

text \<open>The calls made between the state \<open>s\<close> and the later state \<open>s'\<close>.\<close>

definition new_calls :: "world \<Rightarrow> world \<Rightarrow> event list" where
  "new_calls s s' = drop (length (calls s)) (calls s')"

text \<open>The log records handed to \<^verbatim>\<open>logger.Emit\<close>, in order.\<close>

fun log_of :: "event \<Rightarrow> log_record list" where
  "log_of (LoggerEmit r) = [r]"
| "log_of e = []"

definition emitted_logs :: "event list \<Rightarrow> log_record list" where
  "emitted_logs es = concat (map log_of es)"

text \<open>Metric samples: counter increments and histogram observations.\<close>

fun is_metric :: "event \<Rightarrow> bool" where
  "is_metric (CounterAdd n v a) = True"
| "is_metric (HistogramRecord n v a) = True"
| "is_metric e = False"

fun is_counter_add :: "event \<Rightarrow> bool" where
  "is_counter_add (CounterAdd n v a) = True"
| "is_counter_add e = False"

fun is_histogram_record :: "event \<Rightarrow> bool" where
  "is_histogram_record (HistogramRecord n v a) = True"
| "is_histogram_record e = False"

text \<open>
  Every call except the evaluation of the matcher: telemetry, network, sleeping and the
  response.
\<close>

fun is_effect :: "event \<Rightarrow> bool" where
  "is_effect (MatchString p t) = False"
| "is_effect e = True"

text \<open>The position of the first occurrence of a call; the length of the list when there is none.\<close>

definition index_of :: "event \<Rightarrow> event list \<Rightarrow> nat" where
  "index_of e es = length (takeWhile (\<lambda>x. x \<noteq> e) es)"

text \<open>The time slept by a sequence of calls, in nanoseconds.\<close>

fun sleep_of :: "event \<Rightarrow> int" where
  "sleep_of (Sleep d) = d"
| "sleep_of e = 0"

definition total_sleep :: "event list \<Rightarrow> int" where
  "total_sleep es = sum_list (map sleep_of es)"

text \<open>
  The number of requests to the baseline route that fail among \<open>N\<close> requests whose draws of
  \<^verbatim>\<open>rand.Float32()\<close> are the \<open>N\<close> equally spaced values \<open>u / N\<close>, \<open>u < N\<close>, of the interval from
  0 to 1. For \<open>N = 2 ^ 24\<close> these are values of \<^verbatim>\<open>float32\<close>.
\<close>

definition failure_count :: "nat \<Rightarrow> nat \<Rightarrow> request \<Rightarrow> world \<Rightarrow> nat" where
  "failure_count N v r s =
     length (filter
       (\<lambda>u. status (fst (helloHandler v (real u / real N) r (new_response, s)))
              = StatusInternalServerError)
       [0 ..< N])"

text \<open>
  The body of a log record as the specification gives it: the \<^verbatim>\<open>[OK]\<close> line for a
  successful call, the \<^verbatim>\<open>[ERROR]\<close> line for a failed one, with the route
  \<^verbatim>\<open>/slow\<close> of the generator.
\<close>

definition spec_log_body :: "(int \<Rightarrow> int) \<Rightarrow> iter_env \<Rightarrow> string" where
  "spec_log_body to_ms env =
     (case get_err env of
        None \<Rightarrow>
          ''[OK] route=/slow method=GET status=200 duration_ms='' @ fmt_d (to_ms (elapsed env))
            @ '' trace_id='' @ trace_id env @ '' span_id='' @ span_id env
      | Some err \<Rightarrow>
          ''[ERROR] route=/slow method=GET err='' @ err
            @ '' trace_id='' @ trace_id env @ '' span_id='' @ span_id env)"

declare fill_batch.simps [simp del] checkEmail_loop.simps [simp del]
  slowHandler_loop.simps [simp del] decimal.simps [simp del]

section \<open>Properties of the retention buffer\<close>

lemma allocHandler_allocHolder:
  "allocHolder (snd (allocHandler r (w, s))) =
     (if length (allocHolder s) \<ge> maxRetained then drop 1 (allocHolder s) else allocHolder s)
       @ [length (heap s)]"
  by (simp add: allocHandler_def allocateMemoryBurst_def rw_Write_def emit_def Let_def)

lemma allocHandler_heap:
  "length (heap (snd (allocHandler r (w, s)))) = Suc (length (heap s))"
  by (simp add: allocHandler_def allocateMemoryBurst_def rw_Write_def emit_def Let_def)

lemma alloc_calls_heap: "length (heap (alloc_calls n reqs init_world)) = n"
  by (induction n) (simp_all add: init_world_def allocHandler_heap)

lemma alloc_calls_holder:
  "allocHolder (alloc_calls n reqs init_world) = [n - maxRetained ..< n]"
proof (induction n)
  case 0
  show ?case by (simp add: init_world_def)
next
  case (Suc n)
  have step: "allocHolder (alloc_calls (Suc n) reqs init_world) =
      (if maxRetained \<le> length [n - maxRetained ..< n] then drop 1 [n - maxRetained ..< n]
       else [n - maxRetained ..< n]) @ [n]"
    by (simp add: allocHandler_allocHolder alloc_calls_heap Suc)
  show ?case
  proof (cases "maxRetained \<le> n")
    case True
    then have len: "length [n - maxRetained ..< n] = maxRetained"
      by simp
    from True have idx: "n - maxRetained + 1 = Suc n - maxRetained"
      by arith
    from True have le: "Suc n - maxRetained \<le> n"
      by (simp add: maxRetained_def)
    have "drop 1 [n - maxRetained ..< n] @ [n] = [Suc n - maxRetained ..< n] @ [n]"
      by (simp only: drop_upt idx)
    also have "\<dots> = [Suc n - maxRetained ..< Suc n]"
      using le by simp
    finally show ?thesis
      using step len by simp
  next
    case False
    then have "n - maxRetained = 0" and "Suc n - maxRetained = 0" and "length [0 ..< n] < maxRetained"
      by simp_all
    then show ?thesis
      using step by simp
  qed
qed

lemma upt_last_block: "last [Suc k - maxRetained ..< Suc k] = k"
proof -
  have "Suc k - maxRetained \<le> k"
    by (simp add: maxRetained_def)
  then have "[Suc k - maxRetained ..< Suc k] = [Suc k - maxRetained ..< k] @ [k]"
    by simp
  then show ?thesis
    by simp
qed

lemma upt_evict_oldest:
  "[Suc (maxRetained + k) - maxRetained ..< Suc (maxRetained + k)]
     = tl [maxRetained + k - maxRetained ..< maxRetained + k] @ [maxRetained + k]"
proof -
  have lt: "k < maxRetained + k"
    by (simp add: maxRetained_def)
  have le: "Suc k \<le> maxRetained + k"
    by (simp add: maxRetained_def)
  have "[k ..< maxRetained + k] = k # [Suc k ..< maxRetained + k]"
    using lt by (rule upt_conv_Cons)
  then have "tl [k ..< maxRetained + k] @ [maxRetained + k]
      = [Suc k ..< maxRetained + k] @ [maxRetained + k]"
    by simp
  also have "\<dots> = [Suc k ..< Suc (maxRetained + k)]"
    using le by simp
  finally show ?thesis
    by simp
qed

lemma fill_batch_length: "length (fill_batch i batch) = length batch"
proof (induction i batch rule: fill_batch.induct)
  case (1 i batch)
  show ?case
  proof (cases "i < length batch")
    case True
    with "1.IH" show ?thesis
      by (subst fill_batch.simps) simp
  next
    case False
    then show ?thesis
      by (subst fill_batch.simps) simp
  qed
qed

lemma fill_batch_nth:
  "k < length batch \<Longrightarrow>
   fill_batch i batch ! k = (if i \<le> k then word_of_nat k else batch ! k)"
proof (induction i batch arbitrary: k rule: fill_batch.induct)
  case (1 i batch)
  show ?case
  proof (cases "i < length batch")
    case True
    have "fill_batch i batch ! k = fill_batch (Suc i) (batch[i := word_of_nat i]) ! k"
      using True by (subst fill_batch.simps) simp
    also have "\<dots> = (if Suc i \<le> k then word_of_nat k else batch[i := word_of_nat i] ! k)"
      using "1.IH" [OF True, of k] "1.prems" by simp
    also have "\<dots> = (if i \<le> k then word_of_nat k else batch ! k)"
      using True by (cases "i = k") auto
    finally show ?thesis .
  next
    case False
    with "1.prems" show ?thesis
      by (subst fill_batch.simps) simp
  qed
qed

lemma allocHandler_heap_eq:
  "heap (snd (allocHandler r (w, s))) =
     heap s @ [fill_batch 0 (replicate (chunkSize * chunkCount) 0)]"
  by (simp add: allocHandler_def allocateMemoryBurst_def rw_Write_def emit_def Let_def)

lemma alloc_calls_heap_eq:
  "heap (alloc_calls n reqs init_world) =
     replicate n (fill_batch 0 (replicate (chunkSize * chunkCount) 0))"
  by (induction n) (simp_all add: init_world_def allocHandler_heap_eq replicate_append_same)

text \<open>
  Every retained block is an array of \<open>256 * 1024 * 200 = 52428800\<close> bytes whose byte \<open>k\<close>
  holds \<open>k\<close> truncated to 8 bits; after 25 calls the 20 retained blocks add up to
  \<open>1048576000 = 1000 * 1024 * 1024\<close> bytes.
\<close>

lemma retained_block:
  assumes "a \<in> set (allocHolder (alloc_calls n reqs init_world))"
  shows "length (heap (alloc_calls n reqs init_world) ! a) = 52428800"
proof -
  from assms have "a < n"
    by (simp add: alloc_calls_holder)
  then show ?thesis
    by (simp add: alloc_calls_heap_eq fill_batch_length chunkSize_def chunkCount_def)
qed

lemma retained_bytes:
  "sum_list (map (\<lambda>a. length (heap (alloc_calls 25 reqs init_world) ! a))
      (allocHolder (alloc_calls 25 reqs init_world))) = 1048576000"
proof -
  have "map (\<lambda>a. length (heap (alloc_calls 25 reqs init_world) ! a))
      (allocHolder (alloc_calls 25 reqs init_world))
    = map (\<lambda>a. 52428800) (allocHolder (alloc_calls 25 reqs init_world))"
    by (rule map_cong [OF refl]) (rule retained_block)
  then show ?thesis
    by (simp add: sum_list_triv alloc_calls_holder maxRetained_def del: alloc_calls.simps)
qed

text \<open>
  C1. Starting from the empty buffer, after any number \<open>n\<close> of successive calls of the
  memory-retention handler the buffer holds at most \<open>maxRetained = 20\<close> blocks; the block
  appended by call \<open>k + 1\<close> is the array at address \<open>k\<close>; after 21 calls the buffer holds
  exactly 20 blocks and the first-appended block is no longer among them; after 25 calls it
  holds exactly the 20 blocks appended by calls 6 to 25, the oldest 5 being evicted; and
  whenever the buffer is full, a call removes the oldest block and appends the new one.
\<close>

theorem retention_buffer_fifo:
  "length (allocHolder (alloc_calls n reqs init_world)) \<le> maxRetained
   \<and> maxRetained = 20
   \<and> last (allocHolder (alloc_calls (Suc k) reqs init_world)) = k
   \<and> length (allocHolder (alloc_calls 21 reqs init_world)) = 20
   \<and> hd (allocHolder (alloc_calls 1 reqs init_world))
        \<notin> set (allocHolder (alloc_calls 21 reqs init_world))
   \<and> allocHolder (alloc_calls 25 reqs init_world) = [5 ..< 25]
   \<and> set (allocHolder (alloc_calls 25 reqs init_world)) \<inter> {0, 1, 2, 3, 4} = {}
   \<and> allocHolder (alloc_calls (Suc (maxRetained + k)) reqs init_world)
        = tl (allocHolder (alloc_calls (maxRetained + k) reqs init_world)) @ [maxRetained + k]"
proof -
  have a: "length (allocHolder (alloc_calls n reqs init_world)) \<le> maxRetained"
    by (simp add: alloc_calls_holder)
  have b: "last (allocHolder (alloc_calls (Suc k) reqs init_world)) = k"
    by (simp only: alloc_calls_holder upt_last_block)
  have c: "allocHolder (alloc_calls 21 reqs init_world) = [1 ..< 21]"
    by (simp add: alloc_calls_holder maxRetained_def)
  have d: "allocHolder (alloc_calls 1 reqs init_world) = [0 ..< 1]"
    by (simp only: alloc_calls_holder) (simp add: maxRetained_def)
  have e: "allocHolder (alloc_calls 25 reqs init_world) = [5 ..< 25]"
    by (simp add: alloc_calls_holder maxRetained_def)
  have f: "allocHolder (alloc_calls (Suc (maxRetained + k)) reqs init_world)
        = tl (allocHolder (alloc_calls (maxRetained + k) reqs init_world)) @ [maxRetained + k]"
    by (simp only: alloc_calls_holder upt_evict_oldest)
  have g: "maxRetained = 20"
    by (simp add: maxRetained_def)
  have h: "hd [0 ..< 1] \<notin> set [1 ..< 21]"
    by simp
  have i: "set [5 ..< 25] \<inter> {0, 1, 2, 3, 4} = {}"
    by auto
  have j: "length [1 ..< 21] = 20"
    by simp
  show ?thesis
    unfolding c d e using a b f g h i j by blast
qed

section \<open>The loops of the CPU-bound path\<close>

lemma count_list_replicate: "count_list (replicate n x) y = (if x = y then n else 0)"
  by (induction n) auto

lemma new_calls_append: "new_calls s (s\<lparr>calls := calls s @ es\<rparr>) = es"
  by (simp add: new_calls_def)

lemma emit_calls: "calls (emit e s) = calls s @ [e]"
  by (simp add: emit_def)

lemma checkEmail_loop_eq:
  "checkEmail_loop M i ms =
     (fst ms \<or> (i < 5000 \<and> M emailRegexp slowEmailSample),
      (snd ms)\<lparr>calls := calls (snd ms) @
         replicate (5000 - i) (MatchString emailRegexp slowEmailSample)\<rparr>)"
proof (induction M i ms rule: checkEmail_loop.induct)
  case (1 M i ms)
  show ?case
  proof (cases "i < 5000")
    case True
    then have "5000 - i = Suc (5000 - Suc i)"
      by arith
    then have r: "replicate (5000 - i) (MatchString emailRegexp slowEmailSample)
        = MatchString emailRegexp slowEmailSample # replicate (5000 - Suc i) (MatchString emailRegexp slowEmailSample)"
      by (simp only: replicate_Suc)
    show ?thesis
      using True "1.IH" [OF True refl refl]
      by (subst checkEmail_loop.simps) (auto simp add: Let_def emit_def r)
  next
    case False
    then show ?thesis
      by (subst checkEmail_loop.simps) (cases ms, simp)
  qed
qed

lemma checkEmail_eq:
  "checkEmail M s =
     (M emailRegexp slowEmailSample,
      s\<lparr>calls := calls s @ replicate 5000 (MatchString emailRegexp slowEmailSample)\<rparr>)"
  by (simp add: checkEmail_def checkEmail_loop_eq)

lemma slowHandler_loop_eq:
  "slowHandler_loop M i s =
     s\<lparr>calls := calls s @ replicate ((50 - i) * 5000) (MatchString emailRegexp slowEmailSample)\<rparr>"
proof (induction M i s rule: slowHandler_loop.induct)
  case (1 M i s)
  show ?case
  proof (cases "i < 50")
    case True
    then have "(50 - i) * 5000 = 5000 + (50 - Suc i) * 5000"
      by arith
    then have r: "replicate ((50 - i) * 5000) (MatchString emailRegexp slowEmailSample)
        = replicate 5000 (MatchString emailRegexp slowEmailSample)
          @ replicate ((50 - Suc i) * 5000) (MatchString emailRegexp slowEmailSample)"
      by (simp only: replicate_add)
    show ?thesis
      using True "1.IH" [OF True]
      by (subst slowHandler_loop.simps) (simp add: checkEmail_eq r)
  next
    case False
    then show ?thesis
      by (subst slowHandler_loop.simps) simp
  qed
qed

lemma slowHandler_eq:
  "slowHandler M r (w, s) =
     ((if wroteHeader w then w else w\<lparr>wroteHeader := True, status := StatusOK\<rparr>)
        \<lparr>written := written w @ ''Slow endpoint finished''\<rparr>,
      s\<lparr>calls := calls s @ [TracerStart ''slow_business_logic'']
           @ replicate 250000 (MatchString emailRegexp slowEmailSample)
           @ [Write ''Slow endpoint finished'', SpanEnd ''slow_business_logic'']\<rparr>)"
  by (simp add: slowHandler_def slowHandler_loop_eq rw_Write_def emit_def Let_def)

lemma slowHandler_keeps_buffer:
  "allocHolder (snd (slowHandler M r (w, s))) = allocHolder s
   \<and> heap (snd (slowHandler M r (w, s))) = heap s"
  by (simp add: slowHandler_eq)

text \<open>
  C3. \<^verbatim>\<open>checkEmail\<close> returns the result of matching the fixed pattern against the fixed sample
  string: the value is the same on every invocation, whatever the state of the process. Its
  only calls are 5000 evaluations of the matcher; it writes no variable of the program (the
  retention buffer and the store are unchanged) and makes no call of telemetry, network,
  sleeping or response.
\<close>

theorem checkEmail_deterministic_pure:
  "checkEmail matchString s =
     (matchString emailRegexp slowEmailSample,
      s\<lparr>calls := calls s @ replicate 5000 (MatchString emailRegexp slowEmailSample)\<rparr>)
   \<and> fst (checkEmail matchString s) = fst (checkEmail matchString s')
   \<and> allocHolder (snd (checkEmail matchString s)) = allocHolder s
   \<and> heap (snd (checkEmail matchString s)) = heap s
   \<and> filter is_effect (calls (snd (checkEmail matchString s))) = filter is_effect (calls s)"
  by (simp add: checkEmail_eq filter_replicate)

text \<open>
  C4, as amended. For every request to the CPU-bound route the handler evaluates the
  fixed pattern on the fixed sample string exactly \<open>50 * 5000 = 250000\<close> times: 50 calls of
  \<^verbatim>\<open>checkEmail\<close> of 5000 evaluations each. Both counts are constants of the code, and the
  handler does the same for every request: no parameter of the request changes them.
\<close>

theorem slowHandler_iterations:
  "count_list (new_calls s (snd (slowHandler matchString r (w, s))))
     (MatchString emailRegexp slowEmailSample) = 50 * 5000
   \<and> slowHandler matchString r (w, s) = slowHandler matchString r' (w, s)
   \<and> count_list (new_calls s (snd (checkEmail matchString s)))
     (MatchString emailRegexp slowEmailSample) = 5000"
  by (simp add: slowHandler_eq checkEmail_eq new_calls_append count_list_replicate)

text \<open>
  The statement of the specification fails: a request that asks for 10 iterations gets
  250000 evaluations, and a request with no parameter does not get 5000.
\<close>

theorem slowHandler_iterations_counterexample:
  "count_list
     (calls (snd (slowHandler (\<lambda>p t. False)
        \<lparr>req_method = ''GET'', req_path = ''/slow'', req_query = ''loops=10''\<rparr>
        (new_response, init_world))))
     (MatchString emailRegexp slowEmailSample) = 250000
   \<and> count_list
     (calls (snd (slowHandler (\<lambda>p t. False)
        \<lparr>req_method = ''GET'', req_path = ''/slow'', req_query = []\<rparr>
        (new_response, init_world))))
     (MatchString emailRegexp slowEmailSample) \<noteq> 5000"
  by (simp add: slowHandler_eq init_world_def count_list_replicate)

lemma slowHandler_calls_fresh:
  "calls (snd (slowHandler M r (w, init_world))) =
     TracerStart ''slow_business_logic'' # replicate 250000 (MatchString emailRegexp slowEmailSample)
       @ [Write ''Slow endpoint finished'', SpanEnd ''slow_business_logic'']"
  by (simp add: slowHandler_eq init_world_def)

lemma takeWhile_replicate_append:
  "P x \<Longrightarrow> takeWhile P (replicate k x @ ys) = replicate k x @ takeWhile P ys"
  by (induction k) simp_all

lemma index_of_SpanEnd:
  "index_of (SpanEnd n) (TracerStart n # replicate k (MatchString p t) @ [Write b, SpanEnd n])
     = k + 2"
  by (simp add: index_of_def takeWhile_replicate_append)

lemma index_of_Write:
  "index_of (Write b) (TracerStart n # replicate k (MatchString p t) @ [Write b, SpanEnd n])
     = k + 1"
  by (simp add: index_of_def takeWhile_replicate_append)

text \<open>
  C8, as amended. For every single request to \<^verbatim>\<open>/slow\<close> the response has status 200 and
  the body exactly \<^verbatim>\<open>Slow endpoint finished\<close>; exactly one scope named
  \<^verbatim>\<open>slow_business_logic\<close> is opened, on entry, and it is closed exactly once, when the
  handler returns: after the 250000 evaluations of the workload and after the call that writes
  the body, the closing being deferred. The scope covers the whole workload.
\<close>

theorem slowHandler_response_and_span:
  "written (fst (slowHandler matchString r (new_response, s))) = ''Slow endpoint finished''
   \<and> status (fst (slowHandler matchString r (new_response, s))) = 200
   \<and> new_calls s (snd (slowHandler matchString r (new_response, s))) =
       [TracerStart ''slow_business_logic'']
       @ replicate 250000 (MatchString emailRegexp slowEmailSample)
       @ [Write ''Slow endpoint finished'', SpanEnd ''slow_business_logic'']
   \<and> count_list (new_calls s (snd (slowHandler matchString r (new_response, s))))
        (TracerStart ''slow_business_logic'') = 1
   \<and> count_list (new_calls s (snd (slowHandler matchString r (new_response, s))))
        (SpanEnd ''slow_business_logic'') = 1"
  by (simp add: slowHandler_eq new_calls_append new_response_def StatusOK_def count_list_replicate)

text \<open>
  The statement of the specification fails on the order of the last two calls: the scope is
  not closed before the body is written.
\<close>

theorem slowHandler_span_counterexample:
  "index_of (Write ''Slow endpoint finished'')
        (calls (snd (slowHandler (\<lambda>p t. False)
           \<lparr>req_method = ''GET'', req_path = ''/slow'', req_query = []\<rparr>
           (new_response, init_world)))) = 250001
   \<and> index_of (SpanEnd ''slow_business_logic'')
        (calls (snd (slowHandler (\<lambda>p t. False)
           \<lparr>req_method = ''GET'', req_path = ''/slow'', req_query = []\<rparr>
           (new_response, init_world)))) = 250002
   \<and> \<not> index_of (SpanEnd ''slow_business_logic'')
        (calls (snd (slowHandler (\<lambda>p t. False)
           \<lparr>req_method = ''GET'', req_path = ''/slow'', req_query = []\<rparr>
           (new_response, init_world))))
      < index_of (Write ''Slow endpoint finished'')
        (calls (snd (slowHandler (\<lambda>p t. False)
           \<lparr>req_method = ''GET'', req_path = ''/slow'', req_query = []\<rparr>
           (new_response, init_world))))"
  by (simp only: slowHandler_calls_fresh index_of_SpanEnd index_of_Write) simp

section \<open>The two format strings\<close>

lemma Sprintf_ok:
  "Sprintf ''[OK] route=%s method=GET status=200 duration_ms=%d trace_id=%s span_id=%s''
     [ArgString a, ArgInt d, ArgString t, ArgString p]
   = ''[OK] route='' @ a @ '' method=GET status=200 duration_ms='' @ fmt_d d
       @ '' trace_id='' @ t @ '' span_id='' @ p"
  by simp

lemma Sprintf_error:
  "Sprintf ''[ERROR] route=%s method=GET err=%v trace_id=%s span_id=%s''
     [ArgString a, ArgError e, ArgString t, ArgString p]
   = ''[ERROR] route='' @ a @ '' method=GET err='' @ e @ '' trace_id='' @ t @ '' span_id='' @ p"
  by simp

section \<open>The iteration of the traffic generator\<close>

lemma generator_iteration_failure:
  "get_err env = Some e \<Longrightarrow>
   generator_iteration M ms env s =
     s\<lparr>calls := calls s @
        [TracerStart ''traffic_generator_request'',
         SpanSetAttributes ''traffic_generator_request''
           [(''job'', ''demo-app''), (''service_name'', ''demo-app'')]]
        @ replicate 5000 (MatchString emailRegexp slowEmailSample)
        @ [ClientGet ''http://localhost:8080/slow'',
           LoggerEmit
             \<lparr>timestamp = log_time env, severity = SeverityError, severityText = ''ERROR'',
              body = ''[ERROR] route=/slow method=GET err='' @ e @ '' trace_id='' @ trace_id env
                       @ '' span_id='' @ span_id env,
              attributes = [(''route'', StringValue ''/slow''), (''error'', StringValue e),
                            (''trace_id'', StringValue (trace_id env)),
                            (''span_id'', StringValue (span_id env))]\<rparr>,
           SpanRecordError ''traffic_generator_request'' e,
           SpanEnd ''traffic_generator_request'',
           Sleep (Millisecond * (100 + int (intn_500 env)))]\<rparr>"
  by (simp add: generator_iteration_def checkEmail_eq emit_def Let_def empty_record_def
      routeSlow_def jobName_def serviceName_def)

lemma generator_iteration_success:
  "get_err env = None \<Longrightarrow>
   generator_iteration M ms env s =
     s\<lparr>calls := calls s @
        [TracerStart ''traffic_generator_request'',
         SpanSetAttributes ''traffic_generator_request''
           [(''job'', ''demo-app''), (''service_name'', ''demo-app'')]]
        @ replicate 5000 (MatchString emailRegexp slowEmailSample)
        @ [ClientGet ''http://localhost:8080/slow'',
           CounterAdd ''demo_request_total'' 1
             [(''method'', ''GET''), (''status'', ''200''), (''route'', ''/slow'')],
           HistogramRecord ''demo_request_duration_seconds'' (elapsed env) [(''route'', ''/slow'')],
           BodyClose,
           LoggerEmit
             \<lparr>timestamp = log_time env, severity = SeverityInfo, severityText = ''INFO'',
              body = ''[OK] route=/slow method=GET status=200 duration_ms=''
                       @ fmt_d (ms (elapsed env)) @ '' trace_id='' @ trace_id env
                       @ '' span_id='' @ span_id env,
              attributes = [(''route'', StringValue ''/slow''),
                            (''duration_ms'', IntValue (ms (elapsed env))),
                            (''method'', StringValue ''GET''),
                            (''trace_id'', StringValue (trace_id env)),
                            (''span_id'', StringValue (span_id env))]\<rparr>,
           SpanEnd ''traffic_generator_request'',
           Sleep (Millisecond * (100 + int (intn_500 env)))]\<rparr>"
  by (simp add: generator_iteration_def checkEmail_eq emit_def Let_def empty_record_def
      routeSlow_def jobName_def serviceName_def)


lemma generator_iteration_state:
  "allocHolder (generator_iteration M ms env s) = allocHolder s
   \<and> heap (generator_iteration M ms env s) = heap s"
  by (cases "get_err env") (simp_all add: generator_iteration_failure generator_iteration_success)

lemma generator_iteration_ends:
  "count_list (calls (generator_iteration M ms env s)) (SpanEnd ''traffic_generator_request'')
     = Suc (count_list (calls s) (SpanEnd ''traffic_generator_request''))"
  by (cases "get_err env")
    (simp_all add: generator_iteration_failure generator_iteration_success count_list_replicate)

lemma generator_loop_ends:
  "count_list (calls (generator_loop M ms n envs s)) (SpanEnd ''traffic_generator_request'')
     = count_list (calls s) (SpanEnd ''traffic_generator_request'') + n"
  by (induction n) (simp_all add: generator_iteration_ends)

lemma generator_iteration_first:
  "take 1 (new_calls s (generator_iteration M ms env s)) = [TracerStart ''traffic_generator_request'']"
  by (cases "get_err env")
    (simp_all add: generator_iteration_failure generator_iteration_success new_calls_append)

lemma generator_forever_None: "generator_forever M ms envs k s = None"
proof (cases "generator_forever M ms envs k s")
  case None
  then show ?thesis .
next
  case (Some u)
  have False
    by (rule generator_forever.raw_induct [where P = "\<lambda>a b c d e f. False", OF _ Some]) blast
  then show ?thesis ..
qed

text \<open>
  C6. An iteration whose call of the transport fails makes exactly these calls: it opens the
  scope and sets its attributes, runs the workload, calls the route, emits a log record of
  severity error whose body and attributes hold the route, the text of the error and the two
  identifiers, records the error on the scope, closes the scope and sleeps. The loop then goes
  on: the first call after a failed iteration opens the scope of the next iteration;
  whatever the outcomes of the calls, \<open>k\<close> iterations of the loop close \<open>k\<close> scopes; and
  the loop never returns.
\<close>

theorem generator_survives_transport_failure:
  "new_calls s (generator_iteration M ms (env\<lparr>get_err := Some e\<rparr>) s) =
        [TracerStart ''traffic_generator_request'',
         SpanSetAttributes ''traffic_generator_request''
           [(''job'', ''demo-app''), (''service_name'', ''demo-app'')]]
        @ replicate 5000 (MatchString emailRegexp slowEmailSample)
        @ [ClientGet ''http://localhost:8080/slow'',
           LoggerEmit
             \<lparr>timestamp = log_time env, severity = SeverityError, severityText = ''ERROR'',
              body = ''[ERROR] route=/slow method=GET err='' @ e @ '' trace_id='' @ trace_id env
                       @ '' span_id='' @ span_id env,
              attributes = [(''route'', StringValue ''/slow''), (''error'', StringValue e),
                            (''trace_id'', StringValue (trace_id env)),
                            (''span_id'', StringValue (span_id env))]\<rparr>,
           SpanRecordError ''traffic_generator_request'' e,
           SpanEnd ''traffic_generator_request'',
           Sleep (Millisecond * (100 + int (intn_500 env)))]
   \<and> take 1 (new_calls
         (generator_loop M ms (Suc n) (envs(n := env\<lparr>get_err := Some e\<rparr>)) s)
         (generator_loop M ms (Suc (Suc n)) (envs(n := env\<lparr>get_err := Some e\<rparr>)) s))
       = [TracerStart ''traffic_generator_request'']
   \<and> count_list (calls (generator_loop M ms k envs s)) (SpanEnd ''traffic_generator_request'')
       = count_list (calls s) (SpanEnd ''traffic_generator_request'') + k
   \<and> generator_forever M ms envs k s = None"
proof -
  have a: "get_err (env\<lparr>get_err := Some e\<rparr>) = Some e"
    by simp
  have b: "take 1 (new_calls
         (generator_loop M ms (Suc n) (envs(n := env\<lparr>get_err := Some e\<rparr>)) s)
         (generator_loop M ms (Suc (Suc n)) (envs(n := env\<lparr>get_err := Some e\<rparr>)) s))
       = [TracerStart ''traffic_generator_request'']"
    by (subst generator_loop.simps(2)) (rule generator_iteration_first)
  show ?thesis
    using b by (simp add: generator_iteration_failure [OF a] new_calls_append generator_loop_ends
        generator_forever_None del: generator_loop.simps)
qed


lemma emitted_logs_append: "emitted_logs (xs @ ys) = emitted_logs xs @ emitted_logs ys"
  by (simp add: emitted_logs_def)

lemma emitted_logs_replicate: "emitted_logs (replicate n (MatchString p t)) = []"
  by (simp add: emitted_logs_def)

lemma generator_iteration_body:
  "map body (emitted_logs (new_calls s (generator_iteration M ms env s))) = [spec_log_body ms env]"
  by (cases "get_err env")
    (simp_all add: generator_iteration_failure generator_iteration_success new_calls_append
      emitted_logs_append emitted_logs_replicate spec_log_body_def,
     simp_all add: emitted_logs_def)

lemma generator_iteration_logs:
  "map body (emitted_logs (calls (generator_iteration M ms env s)))
     = map body (emitted_logs (calls s)) @ [spec_log_body ms env]"
  by (cases "get_err env")
    (simp_all add: generator_iteration_failure generator_iteration_success
      emitted_logs_append emitted_logs_replicate spec_log_body_def,
     simp_all add: emitted_logs_def)

lemma generator_loop_logs:
  "map body (emitted_logs (calls (generator_loop M ms n envs s)))
     = map body (emitted_logs (calls s)) @ map (\<lambda>k. spec_log_body ms (envs k)) [0 ..< n]"
  by (induction n) (simp_all add: generator_iteration_logs)

lemma ok_body_substrings:
  "sublist (''route='' @ routeSlow) (spec_log_body ms (env\<lparr>get_err := None\<rparr>))
   \<and> sublist ''status=200'' (spec_log_body ms (env\<lparr>get_err := None\<rparr>))
   \<and> sublist (trace_id env) (spec_log_body ms (env\<lparr>get_err := None\<rparr>))"
proof -
  let ?b = "spec_log_body ms (env\<lparr>get_err := None\<rparr>)"
  have 1: "?b = ''[OK] '' @ (''route='' @ routeSlow)
      @ ('' method=GET status=200 duration_ms='' @ fmt_d (ms (elapsed env))
         @ '' trace_id='' @ trace_id env @ '' span_id='' @ span_id env)"
    by (simp add: spec_log_body_def routeSlow_def)
  have 2: "?b = ''[OK] route=/slow method=GET '' @ ''status=200''
      @ ('' duration_ms='' @ fmt_d (ms (elapsed env))
         @ '' trace_id='' @ trace_id env @ '' span_id='' @ span_id env)"
    by (simp add: spec_log_body_def)
  have 3: "?b = (''[OK] route=/slow method=GET status=200 duration_ms='' @ fmt_d (ms (elapsed env))
         @ '' trace_id='') @ trace_id env @ ('' span_id='' @ span_id env)"
    by (simp add: spec_log_body_def)
  have "sublist (''route='' @ routeSlow) ?b"
    by (subst 1) (rule sublist_appendI)
  moreover have "sublist ''status=200'' ?b"
    by (subst 2) (rule sublist_appendI)
  moreover have "sublist (trace_id env) ?b"
    by (subst 3) (rule sublist_appendI)
  ultimately show ?thesis
    by blast
qed

text \<open>
  C5. The body of the one log record that an iteration of the generator emits is the
  \<^verbatim>\<open>[OK]\<close> line of the specification when the call succeeded and its \<^verbatim>\<open>[ERROR]\<close> line
  when it failed, with the route \<^verbatim>\<open>/slow\<close>; the bodies of all the records emitted by the
  generator are these lines, one for each iteration in order; and the body for a successful
  call contains \<^verbatim>\<open>route=/slow\<close>, \<^verbatim>\<open>status=200\<close> and the identifier of the active trace.
\<close>

theorem log_body_format:
  "map body (emitted_logs (new_calls s (generator_iteration matchString to_ms env s)))
     = [case get_err env of
          None \<Rightarrow>
            ''[OK] route=/slow method=GET status=200 duration_ms=''
              @ fmt_d (to_ms (elapsed env))
              @ '' trace_id='' @ trace_id env @ '' span_id='' @ span_id env
        | Some err \<Rightarrow>
            ''[ERROR] route=/slow method=GET err='' @ err
              @ '' trace_id='' @ trace_id env @ '' span_id='' @ span_id env]
   \<and> map body (emitted_logs (calls (startTrafficGenerator matchString to_ms n envs init_world)))
       = map (\<lambda>k. spec_log_body to_ms (envs k)) [0 ..< n]
   \<and> sublist (''route='' @ routeSlow)
        (body (last (emitted_logs
           (calls (generator_iteration matchString to_ms (env\<lparr>get_err := None\<rparr>) s)))))
   \<and> sublist ''status=200''
        (body (last (emitted_logs
           (calls (generator_iteration matchString to_ms (env\<lparr>get_err := None\<rparr>) s)))))
   \<and> sublist (trace_id env)
        (body (last (emitted_logs
           (calls (generator_iteration matchString to_ms (env\<lparr>get_err := None\<rparr>) s)))))"
proof -
  have a: "map body (emitted_logs (new_calls s (generator_iteration matchString to_ms env s)))
      = [spec_log_body to_ms env]"
    by (rule generator_iteration_body)
  have b: "map body (emitted_logs
        (calls (startTrafficGenerator matchString to_ms n envs init_world)))
      = map (\<lambda>k. spec_log_body to_ms (envs k)) [0 ..< n]"
    unfolding startTrafficGenerator_def generator_loop_logs
    by (simp add: emit_def init_world_def emitted_logs_def)
  let ?ls = "emitted_logs
     (calls (generator_iteration matchString to_ms (env\<lparr>get_err := None\<rparr>) s))"
  have "map body ?ls = map body (emitted_logs (calls s)) @ [spec_log_body to_ms (env\<lparr>get_err := None\<rparr>)]"
    by (rule generator_iteration_logs)
  then have "last (map body ?ls) = spec_log_body to_ms (env\<lparr>get_err := None\<rparr>)" and "?ls \<noteq> []"
    by auto
  then have c: "body (last ?ls) = spec_log_body to_ms (env\<lparr>get_err := None\<rparr>)"
    by (simp add: last_map)
  show ?thesis
    using a b ok_body_substrings [of to_ms env]
    by (simp only: c) (simp add: spec_log_body_def)
qed


lemma generator_iteration_metrics:
  "filter is_metric (new_calls s (generator_iteration M ms env s)) =
     (case get_err env of
        None \<Rightarrow>
          [CounterAdd ''demo_request_total'' 1
             [(''method'', ''GET''), (''status'', ''200''), (''route'', ''/slow'')],
           HistogramRecord ''demo_request_duration_seconds'' (elapsed env) [(''route'', ''/slow'')]]
      | Some err \<Rightarrow> [])"
  by (cases "get_err env")
    (simp_all add: generator_iteration_failure generator_iteration_success new_calls_append
      filter_replicate)

lemma generator_iteration_counter:
  "length (filter is_counter_add (calls (generator_iteration M ms env s))) =
     length (filter is_counter_add (calls s)) + (if get_err env = None then 1 else 0)"
  by (cases "get_err env")
    (simp_all add: generator_iteration_failure generator_iteration_success filter_replicate)

lemma generator_iteration_histogram:
  "length (filter is_histogram_record (calls (generator_iteration M ms env s))) =
     length (filter is_histogram_record (calls s)) + (if get_err env = None then 1 else 0)"
  by (cases "get_err env")
    (simp_all add: generator_iteration_failure generator_iteration_success filter_replicate)

lemma generator_loop_counter:
  "length (filter is_counter_add (calls (generator_loop M ms n envs s))) =
     length (filter is_counter_add (calls s))
       + length (filter (\<lambda>k. get_err (envs k) = None) [0 ..< n])"
  by (induction n) (simp_all add: generator_iteration_counter)

lemma generator_loop_histogram:
  "length (filter is_histogram_record (calls (generator_loop M ms n envs s))) =
     length (filter is_histogram_record (calls s))
       + length (filter (\<lambda>k. get_err (envs k) = None) [0 ..< n])"
  by (induction n) (simp_all add: generator_iteration_histogram)

text \<open>
  C9, as amended. An iteration of the generator whose downstream call succeeds emits exactly
  one increment of the request counter, by 1 and tagged with method \<^verbatim>\<open>GET\<close>, status
  \<^verbatim>\<open>200\<close> and the route, followed by exactly one observation of the duration, tagged with
  the route; an iteration whose call fails emits neither. After \<open>n\<close> iterations the number
  of increments and the number of observations both equal the number of successful
  iterations.
\<close>

theorem metrics_per_successful_iteration:
  "filter is_metric (new_calls s (generator_iteration matchString to_ms env s)) =
     (case get_err env of
        None \<Rightarrow>
          [CounterAdd ''demo_request_total'' 1
             [(''method'', ''GET''), (''status'', ''200''), (''route'', ''/slow'')],
           HistogramRecord ''demo_request_duration_seconds'' (elapsed env) [(''route'', ''/slow'')]]
      | Some err \<Rightarrow> [])
   \<and> length (filter is_counter_add
         (calls (startTrafficGenerator matchString to_ms n envs init_world)))
       = length (filter (\<lambda>k. get_err (envs k) = None) [0 ..< n])
   \<and> length (filter is_histogram_record
         (calls (startTrafficGenerator matchString to_ms n envs init_world)))
       = length (filter (\<lambda>k. get_err (envs k) = None) [0 ..< n])"
proof -
  have a: "length (filter is_counter_add
         (calls (startTrafficGenerator matchString to_ms n envs init_world)))
       = length (filter (\<lambda>k. get_err (envs k) = None) [0 ..< n])"
    unfolding startTrafficGenerator_def generator_loop_counter
    by (simp add: emit_def init_world_def)
  have b: "length (filter is_histogram_record
         (calls (startTrafficGenerator matchString to_ms n envs init_world)))
       = length (filter (\<lambda>k. get_err (envs k) = None) [0 ..< n])"
    unfolding startTrafficGenerator_def generator_loop_histogram
    by (simp add: emit_def init_world_def)
  show ?thesis
    using a b generator_iteration_metrics [of s matchString to_ms env] by simp
qed

text \<open>
  The statement of the specification fails on a failed call: the iteration completes, its
  scope is closed, and no metric sample is emitted.
\<close>

theorem metrics_per_iteration_counterexample:
  "filter is_metric
     (calls (generator_iteration (\<lambda>p t. False) (\<lambda>d. d div 1000000)
        \<lparr>get_err = Some ''connection refused'', elapsed = 2000000,
         trace_id = ''4bf92f3577b34da6a3ce929d0e0e4736'', span_id = ''00f067aa0ba902b7'',
         log_time = 0, intn_500 = 0\<rparr>
        init_world)) = []
   \<and> count_list (calls (generator_iteration (\<lambda>p t. False) (\<lambda>d. d div 1000000)
        \<lparr>get_err = Some ''connection refused'', elapsed = 2000000,
         trace_id = ''4bf92f3577b34da6a3ce929d0e0e4736'', span_id = ''00f067aa0ba902b7'',
         log_time = 0, intn_500 = 0\<rparr>
        init_world)) (SpanEnd ''traffic_generator_request'') = 1"
  by (simp add: generator_iteration_failure init_world_def filter_replicate count_list_replicate)

section \<open>The baseline handler\<close>

lemma helloHandler_eq:
  "helloHandler v f r (new_response, s) =
     (if f < float32_0_05
      then (\<lparr>wroteHeader = True, status = 500, written = []\<rparr>,
            s\<lparr>calls := calls s @ [Sleep (Millisecond * int (rand_Intn 50 v)), WriteHeader 500]\<rparr>)
      else (\<lparr>wroteHeader = True, status = 200, written = ''Hello World''\<rparr>,
            s\<lparr>calls := calls s
                 @ [Sleep (Millisecond * int (rand_Intn 50 v)), Write ''Hello World'']\<rparr>))"
  by (simp add: helloHandler_def rw_WriteHeader_def rw_Write_def emit_def Let_def
      new_response_def StatusInternalServerError_def StatusOK_def)

lemma helloHandler_sleep:
  "total_sleep (new_calls s (snd (helloHandler v f r (new_response, s))))
     = Millisecond * int (v mod 50)"
  by (simp add: helloHandler_eq new_calls_append total_sleep_def rand_Intn_def)

lemma helloHandler_fails_iff:
  "status (fst (helloHandler v f r (new_response, s))) = StatusInternalServerError
     \<longleftrightarrow> f < float32_0_05"
  by (simp add: helloHandler_eq StatusInternalServerError_def)

lemma filter_less_upt: "filter (\<lambda>u. u < m) [0 ..< N] = [0 ..< min m N]"
proof (induction N)
  case 0
  show ?case by simp
next
  case (Suc N)
  show ?case
  proof (cases "N < m")
    case True
    then have "min m N = N" and "min m (Suc N) = Suc N"
      by simp_all
    with True Suc show ?thesis
      by simp
  next
    case False
    then have "min m N = m" and "min m (Suc N) = m"
      by simp_all
    with False Suc show ?thesis
      by simp
  qed
qed

lemma grid_below:
  assumes "0 < N"
  shows "real u / real N < x \<longleftrightarrow> u < nat \<lceil>x * real N\<rceil>"
proof -
  have "real u / real N < x \<longleftrightarrow> real u < x * real N"
    using assms by (simp add: pos_divide_less_eq)
  also have "\<dots> \<longleftrightarrow> int u < \<lceil>x * real N\<rceil>"
    by (simp add: less_ceiling_iff)
  also have "\<dots> \<longleftrightarrow> u < nat \<lceil>x * real N\<rceil>"
    by (simp add: zless_nat_eq_int_zless)
  finally show ?thesis .
qed

lemma failure_count_eq:
  assumes "0 < N"
  shows "failure_count N v r s = nat \<lceil>float32_0_05 * real N\<rceil>"
proof -
  have "float32_0_05 * real N \<le> of_int (int N)"
    by (simp add: float32_0_05_def mult_left_le_one_le)
  then have "\<lceil>float32_0_05 * real N\<rceil> \<le> int N"
    by (rule ceiling_le)
  then have le: "nat \<lceil>float32_0_05 * real N\<rceil> \<le> N"
    by (simp only: nat_le_iff)
  have "failure_count N v r s
      = length (filter (\<lambda>u. u < nat \<lceil>float32_0_05 * real N\<rceil>) [0 ..< N])"
    unfolding failure_count_def helloHandler_fails_iff grid_below [OF assms] ..
  then show ?thesis
    using le by (simp add: filter_less_upt)
qed

lemma failure_count_float32: "failure_count 16777216 v r s = 838861"
proof -
  have "\<lceil>float32_0_05 * real 16777216\<rceil> = 838861"
    by (rule ceiling_unique) (simp_all add: float32_0_05_def)
  then show ?thesis
    by (simp only: failure_count_eq [of 16777216, simplified]) simp
qed

lemma failure_fraction:
  "\<bar>real (failure_count (Suc N) v r s) / real (Suc N) - 5 / 100\<bar>
     < 1 / real (Suc N) + 1 / 10 ^ 9"
proof -
  let ?n = "real (Suc N)"
  let ?c = "\<lceil>float32_0_05 * ?n\<rceil>"
  have pos: "0 < ?n"
    by simp
  have t0: "0 \<le> float32_0_05 * ?n"
    by (simp add: float32_0_05_def)
  then have c0: "0 \<le> ?c"
    by (simp add: ceiling_le_iff le_ceiling_iff)
  have fc: "real (failure_count (Suc N) v r s) = of_int ?c"
    using c0 by (simp add: failure_count_eq del: of_nat_Suc)
  have lo: "float32_0_05 * ?n \<le> of_int ?c"
    by (rule le_of_int_ceiling)
  have hi: "of_int ?c < float32_0_05 * ?n + 1"
    using ceiling_correct [of "float32_0_05 * ?n"] by linarith
  have lo': "float32_0_05 \<le> of_int ?c / ?n"
    using lo pos by (simp add: pos_le_divide_eq)
  have hi': "of_int ?c / ?n < float32_0_05 + 1 / ?n"
    using hi pos by (simp add: pos_divide_less_eq distrib_right)
  have t: "\<bar>float32_0_05 - 5 / 100\<bar> < 1 / 10 ^ 9"
    by (simp add: float32_0_05_def)
  show ?thesis
    unfolding fc using lo' hi' t by linarith
qed

text \<open>
  C7. A request to the baseline route sleeps \<open>v mod 50\<close> milliseconds, where \<open>v\<close> is the value
  drawn for \<^verbatim>\<open>rand.Intn(50)\<close>: at least 0 and less than 50 ms, whatever is drawn. Then, when
  the value drawn by \<^verbatim>\<open>rand.Float32()\<close> is below the threshold, it writes the status 500 and
  makes no other call (nothing is retried), and otherwise it responds with the status 200 and
  the body exactly \<^verbatim>\<open>Hello World\<close>. The threshold differs from 5% by less than
  \<open>1 / 10 ^ 9\<close>; of the \<open>2 ^ 24\<close> equally spaced draws \<open>u / 2 ^ 24\<close> exactly 838861 fail, and
  of \<open>N + 1\<close> equally spaced draws the fraction that fails differs from 5% by less than
  \<open>1 / (N + 1) + 1 / 10 ^ 9\<close>.
\<close>

theorem helloHandler_baseline:
  "new_calls s (snd (helloHandler v f r (new_response, s))) =
       Sleep (Millisecond * int (rand_Intn 50 v))
         # (if f < float32_0_05 then [WriteHeader 500] else [Write ''Hello World''])
   \<and> total_sleep (new_calls s (snd (helloHandler v f r (new_response, s))))
       = Millisecond * int (v mod 50)
   \<and> 0 \<le> total_sleep (new_calls s (snd (helloHandler v f r (new_response, s))))
   \<and> total_sleep (new_calls s (snd (helloHandler v f r (new_response, s)))) < 50 * Millisecond
   \<and> status (fst (helloHandler v f r (new_response, s)))
       = (if f < float32_0_05 then 500 else 200)
   \<and> written (fst (helloHandler v f r (new_response, s)))
       = (if f < float32_0_05 then [] else ''Hello World'')
   \<and> \<bar>float32_0_05 - 5 / 100\<bar> < 1 / 10 ^ 9
   \<and> failure_count 16777216 v r s = 838861
   \<and> \<bar>real (failure_count (Suc N) v r s) / real (Suc N) - 5 / 100\<bar>
       < 1 / real (Suc N) + 1 / 10 ^ 9"
proof -
  have a: "new_calls s (snd (helloHandler v f r (new_response, s))) =
       Sleep (Millisecond * int (rand_Intn 50 v))
         # (if f < float32_0_05 then [WriteHeader 500] else [Write ''Hello World''])"
    by (simp add: helloHandler_eq new_calls_append)
  have b: "0 \<le> Millisecond * int (v mod 50)"
    by (simp add: Millisecond_def)
  have "int (v mod 50) < 50"
    by simp
  then have c: "Millisecond * int (v mod 50) < 50 * Millisecond"
    by (simp add: Millisecond_def)
  have d: "status (fst (helloHandler v f r (new_response, s)))
       = (if f < float32_0_05 then 500 else 200)"
    by (simp add: helloHandler_eq)
  have e: "written (fst (helloHandler v f r (new_response, s)))
       = (if f < float32_0_05 then [] else ''Hello World'')"
    by (simp add: helloHandler_eq)
  have t: "\<bar>float32_0_05 - 5 / 100\<bar> < 1 / 10 ^ 9"
    by (simp add: float32_0_05_def)
  show ?thesis
    unfolding helloHandler_sleep
    using a b c d e t failure_count_float32 [of v r s] failure_fraction [of N v r s]
    by blast
qed

theorem helloHandler_baseline_witness:
  "new_calls init_world (snd (helloHandler 107 (1 / 100)
        \<lparr>req_method = ''GET'', req_path = ''/hello'', req_query = []\<rparr>
        (new_response, init_world))) = [Sleep 7000000, WriteHeader 500]
   \<and> status (fst (helloHandler 107 (1 / 100)
        \<lparr>req_method = ''GET'', req_path = ''/hello'', req_query = []\<rparr>
        (new_response, init_world))) = 500
   \<and> new_calls init_world (snd (helloHandler 107 (1 / 2)
        \<lparr>req_method = ''GET'', req_path = ''/hello'', req_query = []\<rparr>
        (new_response, init_world))) = [Sleep 7000000, Write ''Hello World'']
   \<and> status (fst (helloHandler 107 (1 / 2)
        \<lparr>req_method = ''GET'', req_path = ''/hello'', req_query = []\<rparr>
        (new_response, init_world))) = 200
   \<and> written (fst (helloHandler 107 (1 / 2)
        \<lparr>req_method = ''GET'', req_path = ''/hello'', req_query = []\<rparr>
        (new_response, init_world))) = ''Hello World''"
  using helloHandler_baseline [of init_world 107 "1 / 100"
      "\<lparr>req_method = ''GET'', req_path = ''/hello'', req_query = []\<rparr>"]
    helloHandler_baseline [of init_world 107 "1 / 2"
      "\<lparr>req_method = ''GET'', req_path = ''/hello'', req_query = []\<rparr>"]
  by (simp add: float32_0_05_def Millisecond_def rand_Intn_def)

text \<open>
  C10. When the injected failure fires, the handler writes the status 500 and returns: its
  calls are the sleep and \<^verbatim>\<open>WriteHeader(500)\<close> only, the body of the response is empty and
  does not contain \<^verbatim>\<open>Hello World\<close>.
\<close>

theorem helloHandler_failure_body_empty:
  assumes "f < float32_0_05"
  shows "status (fst (helloHandler v f r (new_response, s))) = StatusInternalServerError
         \<and> written (fst (helloHandler v f r (new_response, s))) = []
         \<and> \<not> sublist ''Hello World'' (written (fst (helloHandler v f r (new_response, s))))
         \<and> new_calls s (snd (helloHandler v f r (new_response, s)))
             = [Sleep (Millisecond * int (rand_Intn 50 v)),
                WriteHeader StatusInternalServerError]"
  using assms
  by (simp add: helloHandler_eq new_calls_append StatusInternalServerError_def)

theorem helloHandler_failure_body_empty_witness:
  "(1 / 100 :: real) < float32_0_05
   \<and> status (fst (helloHandler 7 (1 / 100)
        \<lparr>req_method = ''GET'', req_path = ''/hello'', req_query = []\<rparr>
        (new_response, init_world))) = 500
   \<and> written (fst (helloHandler 7 (1 / 100)
        \<lparr>req_method = ''GET'', req_path = ''/hello'', req_query = []\<rparr>
        (new_response, init_world))) = []"
proof -
  have h: "(1 / 100 :: real) < float32_0_05"
    by (simp add: float32_0_05_def)
  show ?thesis
    using h helloHandler_failure_body_empty [OF h, of 7
        "\<lparr>req_method = ''GET'', req_path = ''/hello'', req_query = []\<rparr>" init_world]
    by (simp add: StatusInternalServerError_def)
qed

end
